theory Spec2Isabelle
  imports Complex_Main
begin

section \<open>Data model (types.ts)\<close>

text \<open>
  A JavaScript \<open>number\<close> that is finite is modelled as a \<open>real\<close>: rounding and overflow of
  IEEE doubles are not modelled. The kinematics evaluator and the animation driver only add,
  subtract, multiply, take \<open>cos\<close>, \<open>sin\<close>, \<open>max\<close> and the square root of a sum of squares,
  so on finite inputs every intermediate value is finite. The coordinate mapper divides and
  takes the square root of a possibly negative number; its values are modelled by the
  type \<open>jsnum\<close> below, which adds the two infinities and NaN.

  The statements below about the evaluator are the clamp of \<open>y\<close> at 0 and the fields it
  reads, which hold of the rounded values as well; the statements about the driver take
  the sample as the evaluator returns it. An exact value of the speed \<open>v\<close>, or the order
  of the heights at two neighbouring times, is decided in the program by the rounding of
  \<open>Math.sqrt\<close>, \<open>Math.cos\<close>, \<open>Math.sin\<close> and of each product and sum, and is not
  stated on this model.
\<close>

record PhysicsParams =
  theta :: real
  v0 :: real
  h0 :: real
  gravity :: real
  mass :: real

record TelemetryData =
  t :: real
  x :: real
  y :: real
  vx :: real
  vy :: real
  v :: real

section \<open>Kinematics evaluator (calculateTelemetry)\<close>

definition rad :: "PhysicsParams \<Rightarrow> real" where
  "rad p = (theta p * pi) / 180"

definition vx0 :: "PhysicsParams \<Rightarrow> real" where
  "vx0 p = v0 p * cos (rad p)"

definition vy0 :: "PhysicsParams \<Rightarrow> real" where
  "vy0 p = v0 p * sin (rad p)"

definition calculateTelemetry :: "real \<Rightarrow> PhysicsParams \<Rightarrow> TelemetryData" where
  "calculateTelemetry tm p =
     (let x' = vx0 p * tm;
          y' = h0 p + (vy0 p * tm) - (0.5 * gravity p * tm ^ 2);
          vx' = vx0 p;
          vy' = vy0 p - (gravity p * tm);
          v' = sqrt (vx' * vx' + vy' * vy')
      in \<lparr>t = tm, x = x', y = max 0 y', vx = vx', vy = vy', v = v'\<rparr>)"

text \<open>The unclamped height: the local \<open>y\<close> of \<open>calculateTelemetry\<close> before \<open>Math.max(0, y)\<close>.\<close>

definition yraw :: "real \<Rightarrow> PhysicsParams \<Rightarrow> real" where
  "yraw tm p = h0 p + (vy0 p * tm) - (0.5 * gravity p * tm ^ 2)"

section \<open>Animation driver (App)\<close>

text \<open>
  The React state of \<open>App\<close> together with \<open>lastTimeRef.current\<close>. One animation frame,
  with the state updates it queues, is one atomic step; the parameters are those of the
  render whose effect installed the frame callback.
\<close>

record SimState =
  isRunning :: bool
  currentTime :: real
  telemetry :: TelemetryData
  history :: "TelemetryData list"
  lastTime :: real

definition zero_telemetry :: TelemetryData where
  "zero_telemetry = \<lparr>t = 0, x = 0, y = 0, vx = 0, vy = 0, v = 0\<rparr>"

definition initial_state :: SimState where
  "initial_state =
     \<lparr>isRunning = False, currentTime = 0, telemetry = zero_telemetry,
      history = [], lastTime = 0\<rparr>"

text \<open>
  \<open>if (!lastTimeRef.current) lastTimeRef.current = time;
    const deltaTime = (time - lastTimeRef.current) / 1000;\<close>
  The frame timestamp is in milliseconds.
\<close>

definition deltaTime :: "real \<Rightarrow> SimState \<Rightarrow> real" where
  "deltaTime time s =
     (time - (if lastTime s = 0 then time else lastTime s)) / 1000"

definition animate :: "real \<Rightarrow> PhysicsParams \<Rightarrow> SimState \<Rightarrow> SimState" where
  "animate time p s =
     (let dt = deltaTime time s;
          s1 = s\<lparr>lastTime := time\<rparr>
      in if isRunning s then
           (let prev = currentTime s;
                next = prev + dt;
                currentData = calculateTelemetry next p;
                s2 = s1\<lparr>telemetry := currentData,
                        history := history s @ [currentData]\<rparr>
            in if next > 0 \<and> y currentData \<le> 0 \<and> vy currentData < 0
               then s2\<lparr>isRunning := False, currentTime := prev\<rparr>
               else s2\<lparr>currentTime := next\<rparr>)
         else s1)"

definition handleReset :: "SimState \<Rightarrow> SimState" where
  "handleReset s =
     s\<lparr>isRunning := False, currentTime := 0, history := [],
       telemetry := \<lparr>t = 0, x = 0, y = 0, vx = 0, vy = 0, v = 0\<rparr>,
       lastTime := 0\<rparr>"

text \<open>
  The launch/pause button of \<open>App.tsx\<close>. \<open>isRunning\<close> in the last line is the value of
  the render, read before the reset.
\<close>

definition handleToggle :: "SimState \<Rightarrow> SimState" where
  "handleToggle s =
     (let s1 = (if currentTime s > 0 \<and> \<not> isRunning s \<and> y (telemetry s) \<le> 0
                then handleReset s else s)
      in s1\<lparr>isRunning := \<not> isRunning s\<rparr>)"

text \<open>
  The launch/pause button of the consolidated entry file:
  \<open>onClick={() => setIsRunning(!isRunning)}\<close>.
\<close>

definition toggleRunning :: "SimState \<Rightarrow> SimState" where
  "toggleRunning s = s\<lparr>isRunning := \<not> isRunning s\<rparr>"

text \<open>The states the session can be in: any sequence of frames and button presses.\<close>

inductive reachable :: "SimState \<Rightarrow> bool" where
  start: "reachable initial_state"
| frame: "reachable s \<Longrightarrow> reachable (animate time p s)"
| reset: "reachable s \<Longrightarrow> reachable (handleReset s)"
| toggle: "reachable s \<Longrightarrow> reachable (handleToggle s)"
| toggle_consolidated: "reachable s \<Longrightarrow> reachable (toggleRunning s)"

text \<open>Every recorded sample and the reported one are at or above the ground.\<close>

definition samples_ok :: "SimState \<Rightarrow> bool" where
  "samples_ok s = (list_all (\<lambda>d. 0 \<le> y d) (history s) \<and> 0 \<le> y (telemetry s))"

section \<open>Coordinate mapper (SimulationCanvas)\<close>

text \<open>
  The value of a JavaScript arithmetic expression: a finite number, one of the infinities,
  or NaN. The operations follow IEEE 754 on these four kinds of value; rounding, overflow
  and the sign of zero are not modelled (zero is \<open>+0\<close>).
\<close>

datatype jsnum = Num real | PosInf | NegInf | NaN

fun jneg :: "jsnum \<Rightarrow> jsnum" where
  "jneg (Num a) = Num (- a)"
| "jneg PosInf = NegInf"
| "jneg NegInf = PosInf"
| "jneg NaN = NaN"

fun jadd :: "jsnum \<Rightarrow> jsnum \<Rightarrow> jsnum" where
  "jadd NaN _ = NaN"
| "jadd _ NaN = NaN"
| "jadd (Num a) (Num b) = Num (a + b)"
| "jadd (Num a) PosInf = PosInf"
| "jadd (Num a) NegInf = NegInf"
| "jadd PosInf NegInf = NaN"
| "jadd PosInf _ = PosInf"
| "jadd NegInf PosInf = NaN"
| "jadd NegInf _ = NegInf"

definition jsub :: "jsnum \<Rightarrow> jsnum \<Rightarrow> jsnum" where
  "jsub a b = jadd a (jneg b)"

fun jmul :: "jsnum \<Rightarrow> jsnum \<Rightarrow> jsnum" where
  "jmul NaN _ = NaN"
| "jmul _ NaN = NaN"
| "jmul (Num a) (Num b) = Num (a * b)"
| "jmul (Num a) PosInf = (if a = 0 then NaN else if 0 < a then PosInf else NegInf)"
| "jmul (Num a) NegInf = (if a = 0 then NaN else if 0 < a then NegInf else PosInf)"
| "jmul PosInf (Num b) = (if b = 0 then NaN else if 0 < b then PosInf else NegInf)"
| "jmul NegInf (Num b) = (if b = 0 then NaN else if 0 < b then NegInf else PosInf)"
| "jmul PosInf PosInf = PosInf"
| "jmul PosInf NegInf = NegInf"
| "jmul NegInf PosInf = NegInf"
| "jmul NegInf NegInf = PosInf"

fun jdiv :: "jsnum \<Rightarrow> jsnum \<Rightarrow> jsnum" where
  "jdiv NaN _ = NaN"
| "jdiv _ NaN = NaN"
| "jdiv (Num a) (Num b) =
     (if b \<noteq> 0 then Num (a / b)
      else if a = 0 then NaN else if 0 < a then PosInf else NegInf)"
| "jdiv (Num a) _ = Num 0"
| "jdiv PosInf (Num b) = (if 0 \<le> b then PosInf else NegInf)"
| "jdiv NegInf (Num b) = (if 0 \<le> b then NegInf else PosInf)"
| "jdiv _ _ = NaN"

text \<open>\<open>Math.sqrt\<close>, \<open>Math.pow(_, 2)\<close>, \<open>Math.max\<close> and \<open>Math.min\<close>.\<close>

fun jsqrt :: "jsnum \<Rightarrow> jsnum" where
  "jsqrt (Num a) = (if a < 0 then NaN else Num (sqrt a))"
| "jsqrt PosInf = PosInf"
| "jsqrt NegInf = NaN"
| "jsqrt NaN = NaN"

fun jpow2 :: "jsnum \<Rightarrow> jsnum" where
  "jpow2 (Num a) = Num (a ^ 2)"
| "jpow2 PosInf = PosInf"
| "jpow2 NegInf = PosInf"
| "jpow2 NaN = NaN"

fun jmax :: "jsnum \<Rightarrow> jsnum \<Rightarrow> jsnum" where
  "jmax NaN _ = NaN"
| "jmax _ NaN = NaN"
| "jmax PosInf _ = PosInf"
| "jmax _ PosInf = PosInf"
| "jmax NegInf b = b"
| "jmax a NegInf = a"
| "jmax (Num a) (Num b) = Num (max a b)"

fun jmin :: "jsnum \<Rightarrow> jsnum \<Rightarrow> jsnum" where
  "jmin NaN _ = NaN"
| "jmin _ NaN = NaN"
| "jmin NegInf _ = NegInf"
| "jmin _ NegInf = NegInf"
| "jmin PosInf b = b"
| "jmin a PosInf = a"
| "jmin (Num a) (Num b) = Num (min a b)"

text \<open>
  \<open>canvas.width = canvas.parentElement?.clientWidth || 800\<close> (and the height with 600):
  the size of the parent element in pixels, \<open>None\<close> when there is no parent.
\<close>

definition or_default :: "nat option \<Rightarrow> nat \<Rightarrow> nat" where
  "or_default c d = (case c of None \<Rightarrow> d | Some n \<Rightarrow> if n = 0 then d else n)"

definition resize :: "nat option \<Rightarrow> nat option \<Rightarrow> nat \<times> nat" where
  "resize clientWidth clientHeight =
     (or_default clientWidth 800, or_default clientHeight 600)"

definition PADDING :: real where
  "PADDING = 60"

text \<open>
  The effect body of \<open>SimulationCanvas\<close> up to \<open>scale\<close>; \<open>v0x\<close> and \<open>v0y\<close> are the
  evaluator's \<open>vx0\<close> and \<open>vy0\<close>. The parameters are finite, so sums and products of
  parameters are finite too and are written on \<open>real\<close>.
\<close>

definition t_peak :: "PhysicsParams \<Rightarrow> jsnum" where
  "t_peak p = jdiv (Num (vy0 p)) (Num (gravity p))"

definition h_max :: "PhysicsParams \<Rightarrow> jsnum" where
  "h_max p =
     jsub (jadd (Num (h0 p)) (jmul (Num (vy0 p)) (t_peak p)))
          (jmul (Num (0.5 * gravity p)) (jpow2 (t_peak p)))"

definition t_total :: "PhysicsParams \<Rightarrow> jsnum" where
  "t_total p =
     jdiv (jadd (Num (vy0 p)) (jsqrt (Num (vy0 p * vy0 p + 2 * gravity p * h0 p))))
          (Num (gravity p))"

definition x_max :: "PhysicsParams \<Rightarrow> jsnum" where
  "x_max p = jmul (Num (vx0 p)) (t_total p)"

definition scaleX :: "PhysicsParams \<Rightarrow> nat \<Rightarrow> jsnum" where
  "scaleX p width =
     jdiv (Num (real width - PADDING * 2)) (jmax (jmul (x_max p) (Num 1.2)) (Num 50))"

definition scaleY :: "PhysicsParams \<Rightarrow> nat \<Rightarrow> jsnum" where
  "scaleY p height =
     jdiv (Num (real height - PADDING * 2)) (jmax (jmul (h_max p) (Num 1.5)) (Num 30))"

definition scale :: "PhysicsParams \<Rightarrow> nat \<Rightarrow> nat \<Rightarrow> jsnum" where
  "scale p width height = jmin (scaleX p width) (scaleY p height)"

section \<open>Concrete parameters and sessions\<close>

text \<open>The parameters \<open>App\<close> starts with.\<close>

definition p_init :: PhysicsParams where
  "p_init = \<lparr>theta = 45, v0 = 20, h0 = 0, gravity = 9.81, mass = 1\<rparr>"

text \<open>The start parameters with the custom gravity slider at its minimum, 0.\<close>

definition p_zero_g :: PhysicsParams where
  "p_zero_g = \<lparr>theta = 45, v0 = 20, h0 = 0, gravity = 0, mass = 1\<rparr>"

definition p_neg_g :: PhysicsParams where
  "p_neg_g = \<lparr>theta = 90, v0 = 10, h0 = 0, gravity = - 10, mass = 1\<rparr>"

text \<open>A horizontal launch from the ground and one from a height of 20 m.\<close>

definition p_flat :: PhysicsParams where
  "p_flat = \<lparr>theta = 0, v0 = 10, h0 = 0, gravity = 10, mass = 1\<rparr>"

definition p_drop :: PhysicsParams where
  "p_drop = \<lparr>theta = 0, v0 = 10, h0 = 20, gravity = 10, mass = 1\<rparr>"

definition p_rest :: PhysicsParams where
  "p_rest = \<lparr>theta = 45, v0 = 0, h0 = 0, gravity = 9.81, mass = 1\<rparr>"

text \<open>
  A flight of \<open>p_drop\<close> with one frame per second: launched, then frames at 1000, 2000 and
  3000 ms; \<open>in_flight\<close> is the session after the second frame, \<open>landed\<close> after the third.
\<close>

definition launched :: SimState where
  "launched = handleToggle initial_state"

definition in_flight :: SimState where
  "in_flight = animate 2000 p_drop (animate 1000 p_drop launched)"

definition landed :: SimState where
  "landed = animate 3000 p_drop in_flight"

text \<open>\<open>in_flight\<close> paused by the button.\<close>

definition paused :: SimState where
  "paused = handleToggle in_flight"

text \<open>
  \<open>paused\<close> with the initial height set to 0 while idle (the parameters become \<open>p_flat\<close>),
  an idle frame at 2500 ms, and the button pressed again.
\<close>

definition resumed :: SimState where
  "resumed = handleToggle (animate 2500 p_flat paused)"

section \<open>Facts about the evaluator\<close>

lemma calc_y: "y (calculateTelemetry tm p) = max 0 (yraw tm p)"
  by (simp add: calculateTelemetry_def Let_def yraw_def)

lemma calc_y_nonneg: "0 \<le> y (calculateTelemetry tm p)"
  by (simp add: calc_y)

section \<open>Facts about the concrete sessions\<close>

lemma vx0_p_drop: "vx0 p_drop = 10" and vy0_p_drop: "vy0 p_drop = 0"
  by (simp_all add: vx0_def vy0_def rad_def p_drop_def)

lemma vx0_p_flat: "vx0 p_flat = 10" and vy0_p_flat: "vy0 p_flat = 0"
  by (simp_all add: vx0_def vy0_def rad_def p_flat_def)

lemma vy0_p_zero_g: "vy0 p_zero_g = 10 * sqrt 2"
  by (simp add: vy0_def rad_def p_zero_g_def sin_45)

lemma calc_p_drop:
  "calculateTelemetry tm p_drop =
     \<lparr>t = tm, x = 10 * tm, y = max 0 (20 - 5 * tm ^ 2), vx = 10, vy = - (10 * tm),
      v = sqrt (100 + 10 * tm * (10 * tm))\<rparr>"
  by (simp add: calculateTelemetry_def Let_def vx0_p_drop vy0_p_drop) (simp add: p_drop_def)

lemma calc_p_flat:
  "calculateTelemetry tm p_flat =
     \<lparr>t = tm, x = 10 * tm, y = max 0 (- (5 * tm ^ 2)), vx = 10, vy = - (10 * tm),
      v = sqrt (100 + 10 * tm * (10 * tm))\<rparr>"
  by (simp add: calculateTelemetry_def Let_def vx0_p_flat vy0_p_flat) (simp add: p_flat_def)

lemma launched_eq:
  "launched = \<lparr>isRunning = True, currentTime = 0, telemetry = zero_telemetry,
      history = [], lastTime = 0\<rparr>"
  by (simp add: launched_def initial_state_def handleToggle_def zero_telemetry_def)

lemma in_flight_eq:
  "in_flight = \<lparr>isRunning = True, currentTime = 1, telemetry = calculateTelemetry 1 p_drop,
      history = [calculateTelemetry 0 p_drop, calculateTelemetry 1 p_drop],
      lastTime = 2000\<rparr>"
  by (simp add: in_flight_def launched_eq animate_def deltaTime_def Let_def calc_p_drop)

lemma landed_eq:
  "landed = \<lparr>isRunning = False, currentTime = 1, telemetry = calculateTelemetry 2 p_drop,
      history = [calculateTelemetry 0 p_drop, calculateTelemetry 1 p_drop,
                 calculateTelemetry 2 p_drop], lastTime = 3000\<rparr>"
  by (simp add: landed_def in_flight_eq animate_def deltaTime_def Let_def calc_p_drop)

lemma paused_eq:
  "paused = \<lparr>isRunning = False, currentTime = 1, telemetry = calculateTelemetry 1 p_drop,
      history = [calculateTelemetry 0 p_drop, calculateTelemetry 1 p_drop],
      lastTime = 2000\<rparr>"
  by (simp add: paused_def in_flight_eq handleToggle_def Let_def calc_p_drop)

lemma resumed_eq:
  "resumed = \<lparr>isRunning = True, currentTime = 1, telemetry = calculateTelemetry 1 p_drop,
      history = [calculateTelemetry 0 p_drop, calculateTelemetry 1 p_drop],
      lastTime = 2500\<rparr>"
  by (simp add: resumed_def paused_eq handleToggle_def animate_def deltaTime_def Let_def
      calc_p_drop)

lemma reachable_launched: "reachable launched"
  unfolding launched_def by (intro reachable.intros)

lemma reachable_in_flight: "reachable in_flight"
  unfolding in_flight_def by (intro reachable.intros reachable_launched)

lemma reachable_landed: "reachable landed"
  unfolding landed_def by (intro reachable.intros reachable_in_flight)

lemma reachable_resumed: "reachable resumed"
  unfolding resumed_def paused_def by (intro reachable.intros reachable_in_flight)

section \<open>The ground stop of the animation driver\<close>

text \<open>
  C1 (as amended). On a running frame whose sample, evaluated at the candidate time
  \<open>currentTime + deltaTime\<close>, has \<open>y \<le> 0\<close> and \<open>vy < 0\<close> with the candidate time positive,
  the driver stops, keeps the elapsed time of before the frame, appends the sample to the
  history and reports it as the telemetry. The elapsed time it keeps is strictly less than
  the candidate time exactly when the frame's \<open>deltaTime\<close> is positive.
\<close>

theorem animate_ground_stop:
  assumes "isRunning s"
    and "0 < currentTime s + deltaTime time s"
    and "y (calculateTelemetry (currentTime s + deltaTime time s) p) \<le> 0"
    and "vy (calculateTelemetry (currentTime s + deltaTime time s) p) < 0"
  shows "animate time p s =
           \<lparr>isRunning = False, currentTime = currentTime s,
            telemetry = calculateTelemetry (currentTime s + deltaTime time s) p,
            history = history s @ [calculateTelemetry (currentTime s + deltaTime time s) p],
            lastTime = time\<rparr>
         \<and> (currentTime (animate time p s) < currentTime s + deltaTime time s
              \<longleftrightarrow> 0 < deltaTime time s)"
  using assms by (simp add: animate_def Let_def)

text \<open>The third frame of the flight of \<open>p_drop\<close> is such a frame, with \<open>deltaTime = 1\<close>.\<close>

theorem animate_ground_stop_witness:
  "isRunning in_flight
   \<and> 0 < currentTime in_flight + deltaTime 3000 in_flight
   \<and> y (calculateTelemetry (currentTime in_flight + deltaTime 3000 in_flight) p_drop) \<le> 0
   \<and> vy (calculateTelemetry (currentTime in_flight + deltaTime 3000 in_flight) p_drop) < 0
   \<and> \<not> isRunning (animate 3000 p_drop in_flight)
   \<and> currentTime (animate 3000 p_drop in_flight) = 1
   \<and> telemetry (animate 3000 p_drop in_flight) = calculateTelemetry 2 p_drop
   \<and> currentTime (animate 3000 p_drop in_flight)
       < currentTime in_flight + deltaTime 3000 in_flight"
proof -
  have dt: "deltaTime 3000 in_flight = 1"
    by (simp add: in_flight_eq deltaTime_def)
  have h1: "isRunning in_flight"
    by (simp add: in_flight_eq)
  have h2: "0 < currentTime in_flight + deltaTime 3000 in_flight"
    by (simp add: dt) (simp add: in_flight_eq)
  have h3: "y (calculateTelemetry (currentTime in_flight + deltaTime 3000 in_flight) p_drop) \<le> 0"
    by (simp add: dt) (simp add: in_flight_eq calc_p_drop)
  have h4: "vy (calculateTelemetry (currentTime in_flight + deltaTime 3000 in_flight) p_drop) < 0"
    by (simp add: dt) (simp add: in_flight_eq calc_p_drop)
  have ct: "currentTime in_flight + deltaTime 3000 in_flight = 2"
    by (simp add: dt) (simp add: in_flight_eq)
  from animate_ground_stop [OF h1 h2 h3 h4]
  have c: "\<not> isRunning (animate 3000 p_drop in_flight)
      \<and> currentTime (animate 3000 p_drop in_flight) = 1
      \<and> telemetry (animate 3000 p_drop in_flight) = calculateTelemetry 2 p_drop
      \<and> currentTime (animate 3000 p_drop in_flight)
          < currentTime in_flight + deltaTime 3000 in_flight"
    by (simp add: ct dt) (simp add: in_flight_eq)
  from h1 h2 h3 h4 c show ?thesis
    by blast
qed

text \<open>
  A frame that carries the timestamp of the frame before it has \<open>deltaTime = 0\<close>: the
  session \<open>resumed\<close> stops at such a frame, and the elapsed time it keeps equals the
  candidate time.
\<close>

theorem ground_stop_not_strict_counterexample:
  "reachable resumed \<and> isRunning resumed
   \<and> 0 < currentTime resumed + deltaTime 2500 resumed
   \<and> y (calculateTelemetry (currentTime resumed + deltaTime 2500 resumed) p_flat) \<le> 0
   \<and> vy (calculateTelemetry (currentTime resumed + deltaTime 2500 resumed) p_flat) < 0
   \<and> \<not> isRunning (animate 2500 p_flat resumed)
   \<and> \<not> (currentTime (animate 2500 p_flat resumed)
          < currentTime resumed + deltaTime 2500 resumed)"
  using reachable_resumed
  by (simp add: resumed_eq deltaTime_def animate_def Let_def calc_p_flat)

section \<open>Launch\<close>

text \<open>
  C2 (as amended). Launching an idle session keeps its elapsed time, history and telemetry
  and only sets the running flag, with one exception: the button of \<open>App.tsx\<close>, pressed on
  an idle session whose elapsed time is positive and whose telemetry has \<open>y \<le> 0\<close>,
  resets the session before it starts. The button of the consolidated entry file never
  resets.
\<close>

theorem launch_keeps_session:
  assumes "\<not> isRunning s"
  shows "toggleRunning s = s\<lparr>isRunning := True\<rparr>
     \<and> (\<not> (0 < currentTime s \<and> y (telemetry s) \<le> 0)
          \<longrightarrow> handleToggle s = s\<lparr>isRunning := True\<rparr>)
     \<and> (0 < currentTime s \<and> y (telemetry s) \<le> 0
          \<longrightarrow> handleToggle s = (handleReset s)\<lparr>isRunning := True\<rparr>)"
  using assms by (simp add: toggleRunning_def handleToggle_def Let_def)

theorem launch_keeps_session_witness:
  "\<not> isRunning paused
   \<and> \<not> (0 < currentTime paused \<and> y (telemetry paused) \<le> 0)
   \<and> toggleRunning paused = paused\<lparr>isRunning := True\<rparr>
   \<and> handleToggle paused = paused\<lparr>isRunning := True\<rparr>
   \<and> \<not> isRunning landed
   \<and> 0 < currentTime landed \<and> y (telemetry landed) \<le> 0
   \<and> handleToggle landed = (handleReset landed)\<lparr>isRunning := True\<rparr>"
proof -
  have p1: "\<not> isRunning paused"
    by (simp add: paused_eq)
  have p2: "\<not> (0 < currentTime paused \<and> y (telemetry paused) \<le> 0)"
    by (simp add: paused_eq calc_p_drop)
  have l1: "\<not> isRunning landed"
    by (simp add: landed_eq)
  have l2: "0 < currentTime landed \<and> y (telemetry landed) \<le> 0"
    by (simp add: landed_eq calc_p_drop)
  from launch_keeps_session [OF p1] p2
  have a: "toggleRunning paused = paused\<lparr>isRunning := True\<rparr>
      \<and> handleToggle paused = paused\<lparr>isRunning := True\<rparr>"
    by blast
  from launch_keeps_session [OF l1] l2
  have b: "handleToggle landed = (handleReset landed)\<lparr>isRunning := True\<rparr>"
    by blast
  from p1 p2 l1 l2 a b show ?thesis
    by blast
qed

text \<open>
  The button of \<open>App.tsx\<close> pressed after the flight of \<open>p_drop\<close> has ended: the session is
  idle with elapsed time 1, and the launch starts it from elapsed time 0 with an empty
  history.
\<close>

theorem launch_resets_landed_counterexample:
  "reachable landed
   \<and> \<not> isRunning landed \<and> currentTime landed = 1 \<and> history landed \<noteq> []
   \<and> isRunning (handleToggle landed)
   \<and> currentTime (handleToggle landed) = 0
   \<and> history (handleToggle landed) = []
   \<and> telemetry (handleToggle landed) \<noteq> telemetry landed"
  using reachable_landed
  by (simp add: landed_eq handleToggle_def handleReset_def Let_def calc_p_drop)

section \<open>Samples are never below the ground\<close>

lemma samples_ok_animate: "samples_ok s \<Longrightarrow> samples_ok (animate time p s)"
  by (simp add: samples_ok_def animate_def Let_def calc_y_nonneg)

lemma samples_ok_reset: "samples_ok (handleReset s)"
  by (simp add: samples_ok_def handleReset_def)

lemma samples_ok_toggle: "samples_ok s \<Longrightarrow> samples_ok (handleToggle s)"
  by (simp add: samples_ok_def handleToggle_def handleReset_def Let_def)

lemma samples_ok_toggleRunning: "samples_ok s \<Longrightarrow> samples_ok (toggleRunning s)"
  by (simp add: samples_ok_def toggleRunning_def)

lemma reachable_samples_ok: "reachable s \<Longrightarrow> samples_ok s"
proof (induction rule: reachable.induct)
  case start
  show ?case
    by (simp add: samples_ok_def initial_state_def zero_telemetry_def)
next
  case (frame s time p)
  then show ?case
    by (simp add: samples_ok_animate)
next
  case (reset s)
  show ?case
    by (rule samples_ok_reset)
next
  case (toggle s)
  then show ?case
    by (simp add: samples_ok_toggle)
next
  case (toggle_consolidated s)
  then show ?case
    by (simp add: samples_ok_toggleRunning)
qed

text \<open>
  C5. Every sample of the evaluator has \<open>y \<ge> 0\<close>, for any time and any parameters; so in
  every session reached from the initial one by frames, launches, pauses and resets, every
  sample of the history and the telemetry have \<open>y \<ge> 0\<close>.
\<close>

theorem samples_nonnegative:
  "0 \<le> y (calculateTelemetry tm p)
   \<and> (reachable s \<longrightarrow> (\<forall>d \<in> set (history s). 0 \<le> y d) \<and> 0 \<le> y (telemetry s))"
  using reachable_samples_ok [of s] calc_y_nonneg [of tm p]
  by (auto simp add: samples_ok_def list_all_iff)

theorem samples_nonnegative_witness:
  "reachable landed
   \<and> calculateTelemetry 2 p_drop \<in> set (history landed)
   \<and> 0 \<le> y (calculateTelemetry 2 p_drop)
   \<and> 0 \<le> y (telemetry landed)"
proof -
  have m: "calculateTelemetry 2 p_drop \<in> set (history landed)"
    by (simp add: landed_eq)
  from samples_nonnegative [of 2 p_drop landed] reachable_landed m
  show ?thesis
    by blast
qed

section \<open>Reset\<close>

text \<open>
  C7. Reset, in any session, yields the idle session with elapsed time 0, the zero
  telemetry, an empty history and no frame timestamp (\<open>lastTime = 0\<close>); a second reset
  changes nothing.
\<close>

theorem handleReset_zeroed_idempotent:
  "handleReset s =
     \<lparr>isRunning = False, currentTime = 0, telemetry = zero_telemetry, history = [],
      lastTime = 0\<rparr>
   \<and> handleReset s = initial_state
   \<and> handleReset (handleReset s) = handleReset s"
  by (simp add: handleReset_def zero_telemetry_def initial_state_def)

section \<open>Mass\<close>

text \<open>
  C9. Two parameter records that agree on angle, speed, height and gravity give the same
  sample at every time, whatever their masses.
\<close>

theorem calculateTelemetry_mass_independent:
  assumes "theta p = theta q" and "v0 p = v0 q" and "h0 p = h0 q"
    and "gravity p = gravity q"
  shows "calculateTelemetry tm p = calculateTelemetry tm q"
  using assms by (simp add: calculateTelemetry_def Let_def vx0_def vy0_def rad_def)

theorem calculateTelemetry_mass_independent_witness:
  "theta p_init = theta (p_init\<lparr>mass := 50\<rparr>) \<and> v0 p_init = v0 (p_init\<lparr>mass := 50\<rparr>)
   \<and> h0 p_init = h0 (p_init\<lparr>mass := 50\<rparr>) \<and> gravity p_init = gravity (p_init\<lparr>mass := 50\<rparr>)
   \<and> mass p_init \<noteq> mass (p_init\<lparr>mass := 50\<rparr>)
   \<and> calculateTelemetry 1 p_init = calculateTelemetry 1 (p_init\<lparr>mass := 50\<rparr>)"
proof -
  have h1: "theta p_init = theta (p_init\<lparr>mass := 50\<rparr>)"
    and h2: "v0 p_init = v0 (p_init\<lparr>mass := 50\<rparr>)"
    and h3: "h0 p_init = h0 (p_init\<lparr>mass := 50\<rparr>)"
    and h4: "gravity p_init = gravity (p_init\<lparr>mass := 50\<rparr>)"
    by simp_all
  have m: "mass p_init \<noteq> mass (p_init\<lparr>mass := 50\<rparr>)"
    by (simp add: p_init_def)
  from calculateTelemetry_mass_independent [OF h1 h2 h3 h4, of 1] h1 h2 h3 h4 m
  show ?thesis
    by blast
qed

section \<open>The first frame\<close>

text \<open>
  C10. On a frame that finds no frame timestamp (\<open>lastTime = 0\<close>, as in the initial
  session and after a reset), \<open>deltaTime\<close> is 0, the timestamp is recorded and the elapsed
  time does not advance; if the session is running, the sample of the unchanged elapsed
  time is appended to the history and reported as the telemetry.
\<close>

theorem first_frame_no_advance:
  assumes "lastTime s = 0"
  shows "deltaTime time s = 0
     \<and> lastTime (animate time p s) = time
     \<and> currentTime (animate time p s) = currentTime s
     \<and> (isRunning s \<longrightarrow>
           telemetry (animate time p s) = calculateTelemetry (currentTime s) p
         \<and> history (animate time p s) = history s @ [calculateTelemetry (currentTime s) p])
     \<and> lastTime initial_state = 0
     \<and> lastTime (handleReset r) = 0"
  using assms
  by (simp add: animate_def deltaTime_def Let_def initial_state_def handleReset_def)

theorem first_frame_no_advance_witness:
  "lastTime launched = 0 \<and> isRunning launched
   \<and> deltaTime 1000 launched = 0
   \<and> lastTime (animate 1000 p_drop launched) = 1000
   \<and> currentTime (animate 1000 p_drop launched) = currentTime launched
   \<and> telemetry (animate 1000 p_drop launched) = calculateTelemetry 0 p_drop
   \<and> history (animate 1000 p_drop launched) = [calculateTelemetry 0 p_drop]"
proof -
  have h: "lastTime launched = 0" and r: "isRunning launched"
    and c: "currentTime launched = 0" and e: "history launched = []"
    by (simp_all add: launched_eq)
  from first_frame_no_advance [OF h, of 1000 p_drop] r c e
  have "deltaTime 1000 launched = 0
     \<and> lastTime (animate 1000 p_drop launched) = 1000
     \<and> currentTime (animate 1000 p_drop launched) = currentTime launched
     \<and> telemetry (animate 1000 p_drop launched) = calculateTelemetry 0 p_drop
     \<and> history (animate 1000 p_drop launched) = [calculateTelemetry 0 p_drop]"
    by simp
  with h r show ?thesis
    by blast
qed

section \<open>The coordinate mapper\<close>

lemma jadd_NaN_right [simp]: "jadd a NaN = NaN"
  by (cases a) simp_all

lemma jmul_NaN_right [simp]: "jmul a NaN = NaN"
  by (cases a) simp_all

lemma jdiv_NaN_right [simp]: "jdiv a NaN = NaN"
  by (cases a) simp_all

lemma jmax_NaN_right [simp]: "jmax a NaN = NaN"
  by (cases a) simp_all

lemma jmin_NaN_right [simp]: "jmin a NaN = NaN"
  by (cases a) simp_all

lemma h_max_zero_gravity: "gravity p = 0 \<Longrightarrow> h_max p = NaN"
  by (simp add: h_max_def t_peak_def jsub_def)

lemma scale_zero_gravity: "gravity p = 0 \<Longrightarrow> scale p width height = NaN"
  by (simp add: scale_def scaleY_def h_max_zero_gravity)

lemma h_max_pos_gravity:
  assumes "0 < gravity p"
  shows "h_max p = Num (h0 p + (vy0 p)\<^sup>2 / (2 * gravity p))"
  using assms by (simp add: h_max_def t_peak_def jsub_def power2_eq_square field_simps)

lemma t_total_pos_gravity:
  assumes "0 < gravity p" and "0 \<le> h0 p"
  shows "t_total p =
           Num ((vy0 p + sqrt (vy0 p * vy0 p + 2 * gravity p * h0 p)) / gravity p)"
proof -
  have "0 \<le> vy0 p * vy0 p" by simp
  moreover have "0 \<le> 2 * gravity p * h0 p" using assms by simp
  ultimately have "0 \<le> vy0 p * vy0 p + 2 * gravity p * h0 p"
    by (rule add_nonneg_nonneg)
  then show ?thesis
    using assms(1) by (simp add: t_total_def)
qed

text \<open>
  C3 (as amended). The mapper has no guard on gravity: it always divides by it. With
  gravity 0 the scale is NaN, for every canvas size; with any other gravity, negative ones
  included, \<open>t_peak\<close> is the quotient \<open>vy0 / gravity\<close>.
\<close>

theorem mapper_no_gravity_guard:
  "(gravity p = 0 \<longrightarrow> scale p width height = NaN)
   \<and> (gravity p \<noteq> 0 \<longrightarrow> t_peak p = Num (vy0 p / gravity p))"
  by (simp add: scale_zero_gravity t_peak_def)

theorem mapper_no_gravity_guard_witness:
  "gravity p_zero_g = 0 \<and> scale p_zero_g 800 600 = NaN
   \<and> gravity p_neg_g \<noteq> 0 \<and> t_peak p_neg_g = Num (- 1)"
proof -
  have z: "gravity p_zero_g = 0"
    by (simp add: p_zero_g_def)
  have n: "gravity p_neg_g \<noteq> 0"
    by (simp add: p_neg_g_def)
  have q: "vy0 p_neg_g / gravity p_neg_g = - 1"
    by (simp add: vy0_def rad_def p_neg_g_def)
  from mapper_no_gravity_guard [of p_zero_g 800 600] z
  have a: "scale p_zero_g 800 600 = NaN"
    by blast
  from mapper_no_gravity_guard [of p_neg_g 800 600] n q
  have b: "t_peak p_neg_g = Num (- 1)"
    by simp
  from z n a b show ?thesis
    by blast
qed

text \<open>
  The start parameters with gravity 0, on the default canvas: the division by the gravity
  is carried out (\<open>t_peak\<close> is infinite) and the scale is NaN, not a default scale.
\<close>

theorem mapper_zero_gravity_counterexample:
  "gravity p_zero_g \<le> 0 \<and> resize None None = (800, 600)
   \<and> t_peak p_zero_g = PosInf \<and> scale p_zero_g 800 600 = NaN"
  by (simp add: scale_zero_gravity t_peak_def vy0_p_zero_g resize_def or_default_def)
     (simp add: p_zero_g_def)

text \<open>
  C4 (as amended). For parameters with positive gravity, non-negative speed and
  non-negative initial height, on a canvas wider and higher than 120 pixels (twice the
  padding), the scale is a finite positive number. When speed and height are both 0 it is
  the minimum of the two floors' quotients, \<open>(width - 120) / 50\<close> and
  \<open>(height - 120) / 30\<close>.
\<close>

theorem scale_positive_finite:
  assumes "0 < gravity p" and "0 \<le> v0 p" and "0 \<le> h0 p"
    and "120 < width" and "120 < height"
  shows "(\<exists>r. scale p width height = Num r \<and> 0 < r)
     \<and> (v0 p = 0 \<and> h0 p = 0 \<longrightarrow>
          scale p width height =
            Num (min ((real width - 120) / 50) ((real height - 120) / 30)))"
proof -
  obtain hm where hm: "h_max p = Num hm"
    using h_max_pos_gravity [OF assms(1)] by simp
  obtain tt where tt: "t_total p = Num tt"
    using t_total_pos_gravity [OF assms(1,3)] by simp
  have sx: "scaleX p width = Num ((real width - 120) / max (vx0 p * tt * 1.2) 50)"
    using tt by (simp add: scaleX_def x_max_def PADDING_def)
  have sy: "scaleY p height = Num ((real height - 120) / max (hm * 1.5) 30)"
    using hm by (simp add: scaleY_def PADDING_def)
  have "0 < (real width - 120) / max (vx0 p * tt * 1.2) 50"
    using assms(4) by simp
  moreover have "0 < (real height - 120) / max (hm * 1.5) 30"
    using assms(5) by simp
  ultimately have pos: "\<exists>r. scale p width height = Num r \<and> 0 < r"
    using sx sy by (simp add: scale_def)
  have "v0 p = 0 \<and> h0 p = 0 \<longrightarrow>
          scale p width height =
            Num (min ((real width - 120) / 50) ((real height - 120) / 30))"
  proof
    assume z: "v0 p = 0 \<and> h0 p = 0"
    then have "vx0 p = 0" and "vy0 p = 0"
      by (simp_all add: vx0_def vy0_def)
    then show "scale p width height =
        Num (min ((real width - 120) / 50) ((real height - 120) / 30))"
      using z assms(1)
      by (simp add: scale_def scaleX_def scaleY_def x_max_def h_max_def t_total_def
          t_peak_def jsub_def PADDING_def)
  qed
  with pos show ?thesis
    by simp
qed

theorem scale_positive_finite_witness:
  "0 < gravity p_rest \<and> 0 \<le> v0 p_rest \<and> 0 \<le> h0 p_rest
   \<and> (120::nat) < 800 \<and> (120::nat) < 600
   \<and> v0 p_rest = 0 \<and> h0 p_rest = 0
   \<and> scale p_rest 800 600 = Num (68 / 5)"
proof -
  have g: "0 < gravity p_rest" and v: "0 \<le> v0 p_rest" and h: "0 \<le> h0 p_rest"
    and z: "v0 p_rest = 0 \<and> h0 p_rest = 0"
    by (simp_all add: p_rest_def)
  have w: "(120::nat) < 800" and k: "(120::nat) < 600"
    by simp_all
  from scale_positive_finite [OF g v h w k] z
  have "scale p_rest 800 600 = Num (68 / 5)"
    by simp
  with g v h w k z show ?thesis
    by blast
qed

text \<open>
  A parent element 100 pixels wide gives a canvas 100 pixels wide, and the scale of the
  horizontal launch \<open>p_flat\<close> is negative there.
\<close>

theorem scale_narrow_canvas_counterexample:
  "0 < gravity p_flat \<and> 0 \<le> v0 p_flat
   \<and> resize (Some 100) (Some 700) = (100, 700)
   \<and> scale p_flat 100 700 = Num (- (2 / 5))"
  by (simp add: scale_def scaleX_def scaleY_def x_max_def h_max_def t_total_def t_peak_def
      jsub_def PADDING_def vx0_p_flat vy0_p_flat resize_def or_default_def)
     (simp add: p_flat_def)

end
